theory Spec2Isabelle
  imports Complex_Main
begin

section \<open>Body tracking: temporal smoothing and movement detection\<close>

text \<open>
  A shallow embedding of the signal-processing core of the \<open>BodyTracking\<close> component:
  \<open>applyTemporalSmoothing\<close>, \<open>calculatePartCenter\<close>, \<open>analyzeMovement\<close> and the body of
  the \<open>detectPose\<close> loop. JavaScript numbers are modelled as the reals (no rounding, no
  NaN); the frame counter is a natural number. The refs of the component
  (\<open>keypointHistoryRef\<close>, \<open>previousKeypointsRef\<close>, \<open>frameCountRef\<close>) and the React state
  \<open>motionLog\<close> are fields of one state record that every operation takes and returns.
\<close>

subsection \<open>Data\<close>

text \<open>A position \<open>{x, y}\<close>; the fields are named \<open>pos_x\<close> and \<open>pos_y\<close>.\<close>

record point =
  pos_x :: real
  pos_y :: real

text \<open>A PoseNet keypoint \<open>{score, part, position}\<close>.\<close>

record keypoint =
  score :: real
  part :: string
  position :: point

type_synonym frame = "keypoint list"

text \<open>The object \<open>currentParts\<close>: one centre or \<open>null\<close> for each body part.\<close>

record parts =
  head :: "point option"
  leftArm :: "point option"
  rightArm :: "point option"
  leftLeg :: "point option"
  rightLeg :: "point option"
  torso :: "point option"

text \<open>An entry \<open>{text, time}\<close> of the motion log.\<close>

record entry =
  entry_text :: string
  entry_time :: string

text \<open>
  The mutable state of the component. \<open>canvas\<close> is the trace of the calls of
  \<open>drawBodyParts\<close>, oldest first: the frame each call was given.
\<close>

record tracking =
  frameCountRef :: nat
  keypointHistoryRef :: "frame list"
  previousKeypointsRef :: "parts option"
  motionLog :: "entry list"
  canvas :: "frame list"

definition initial :: tracking where
  "initial = \<lparr>frameCountRef = 0, keypointHistoryRef = [], previousKeypointsRef = None,
     motionLog = [], canvas = []\<rparr>"

definition SMOOTHING_WINDOW :: nat where
  "SMOOTHING_WINDOW = 5"

definition MOVEMENT_THRESHOLD :: real where
  "MOVEMENT_THRESHOLD = 15"

definition CONFIDENCE_THRESHOLD :: real where
  "CONFIDENCE_THRESHOLD = 0.5"

definition FRAME_SKIP :: nat where
  "FRAME_SKIP = 5"

definition BODY_PARTS_head :: "nat list" where
  "BODY_PARTS_head = [0, 1, 2, 3, 4]"

definition BODY_PARTS_leftArm :: "nat list" where
  "BODY_PARTS_leftArm = [5, 7, 9]"

definition BODY_PARTS_rightArm :: "nat list" where
  "BODY_PARTS_rightArm = [6, 8, 10]"

definition BODY_PARTS_leftLeg :: "nat list" where
  "BODY_PARTS_leftLeg = [11, 13, 15]"

definition BODY_PARTS_rightLeg :: "nat list" where
  "BODY_PARTS_rightLeg = [12, 14, 16]"

definition BODY_PARTS_torso :: "nat list" where
  "BODY_PARTS_torso = [5, 6, 11, 12]"

subsection \<open>applyTemporalSmoothing\<close>

text \<open>
  One round of the inner \<open>forEach\<close> over the history, for keypoint index \<open>i\<close>: a frame
  with no \<open>i\<close>-th keypoint (\<open>frame[i]\<close> undefined) or a score under the threshold leaves
  the four accumulators alone.
\<close>

definition accumulate :: "nat \<Rightarrow> frame \<Rightarrow> real \<times> real \<times> real \<times> nat \<Rightarrow> real \<times> real \<times> real \<times> nat" where
  "accumulate i frame acc =
     (case acc of (sumX, sumY, sumScore, count) \<Rightarrow>
        if i < length frame \<and> score (frame ! i) \<ge> CONFIDENCE_THRESHOLD
        then (sumX + pos_x (position (frame ! i)),
              sumY + pos_y (position (frame ! i)),
              sumScore + score (frame ! i),
              count + 1)
        else acc)"

text \<open>The callback of \<open>keypoints.map\<close>: \<open>{...kp, position, score}\<close> keeps the other fields.\<close>

definition smoothKeypoint :: "frame list \<Rightarrow> keypoint \<Rightarrow> nat \<Rightarrow> keypoint" where
  "smoothKeypoint history kp i =
     (case fold (accumulate i) history (0, 0, 0, 0) of (sumX, sumY, sumScore, count) \<Rightarrow>
        if count = 0 then kp
        else kp\<lparr>position := \<lparr>pos_x = sumX / real count, pos_y = sumY / real count\<rparr>,
                score := sumScore / real count\<rparr>)"

text \<open>\<open>push\<close>, then one \<open>shift\<close> when the length exceeds the window.\<close>

definition applyTemporalSmoothing :: "frame \<Rightarrow> tracking \<Rightarrow> frame \<times> tracking" where
  "applyTemporalSmoothing keypoints st =
     (let pushed = keypointHistoryRef st @ [keypoints];
          history = (if length pushed > SMOOTHING_WINDOW then tl pushed else pushed);
          st' = st\<lparr>keypointHistoryRef := history\<rparr>
      in if length history < 2 then (keypoints, st')
         else (map (\<lambda>(i, kp). smoothKeypoint history kp i) (enumerate 0 keypoints), st'))"

subsection \<open>calculatePartCenter\<close>

definition addKeypoint :: "frame \<Rightarrow> nat \<Rightarrow> real \<times> real \<times> nat \<Rightarrow> real \<times> real \<times> nat" where
  "addKeypoint keypoints idx acc =
     (case acc of (sumX, sumY, count) \<Rightarrow>
        if idx < length keypoints \<and> score (keypoints ! idx) \<ge> CONFIDENCE_THRESHOLD
        then (sumX + pos_x (position (keypoints ! idx)),
              sumY + pos_y (position (keypoints ! idx)),
              count + 1)
        else acc)"

definition calculatePartCenter :: "frame \<Rightarrow> nat list \<Rightarrow> point option" where
  "calculatePartCenter keypoints partIndices =
     (case fold (addKeypoint keypoints) partIndices (0, 0, 0) of (sumX, sumY, count) \<Rightarrow>
        if count = 0 then None
        else Some \<lparr>pos_x = sumX / real count, pos_y = sumY / real count\<rparr>)"

subsection \<open>analyzeMovement\<close>

text \<open>\<open>part.replace(/([A-Z])/g, ' $1').trim()\<close> on ASCII strings.\<close>

definition is_upper :: "char \<Rightarrow> bool" where
  "is_upper c = (65 \<le> (of_char c :: nat) \<and> (of_char c :: nat) \<le> 90)"

definition is_space :: "char \<Rightarrow> bool" where
  "is_space c = ((of_char c :: nat) = 32 \<or> (9 \<le> (of_char c :: nat) \<and> (of_char c :: nat) \<le> 13))"

fun space_capitals :: "string \<Rightarrow> string" where
  "space_capitals [] = []"
| "space_capitals (c # cs) =
     (if is_upper c then CHR '' '' # c # space_capitals cs else c # space_capitals cs)"

definition trim :: "string \<Rightarrow> string" where
  "trim s = rev (dropWhile is_space (rev (dropWhile is_space s)))"

definition partName :: "string \<Rightarrow> string" where
  "partName p = trim (space_capitals p)"

definition distance :: "point \<Rightarrow> point \<Rightarrow> real" where
  "distance current previous =
     sqrt ((pos_x current - pos_x previous)\<^sup>2 + (pos_y current - pos_y previous)\<^sup>2)"

text \<open>The head block: \<open>movements.push\<close> appends to the list built so far.\<close>

definition headMovements :: "parts \<Rightarrow> parts \<Rightarrow> string list \<Rightarrow> string list" where
  "headMovements currentParts previousParts movements =
     (case (head currentParts, head previousParts) of
        (Some headCurrent, Some headPrevious) \<Rightarrow>
          (let headDeltaX = pos_x headCurrent - pos_x headPrevious;
               headDeltaY = pos_y headCurrent - pos_y headPrevious;
               movements1 =
                 (if \<bar>headDeltaX\<bar> > MOVEMENT_THRESHOLD
                  then movements @ [''Head turned '' @ (if headDeltaX > 0 then ''left'' else ''right'')]
                  else movements);
               movements2 =
                 (if \<bar>headDeltaY\<bar> > MOVEMENT_THRESHOLD
                  then movements1 @ [''Head tilted '' @ (if headDeltaY > 0 then ''down'' else ''up'')]
                  else movements1)
           in movements2)
      | _ \<Rightarrow> movements)"

text \<open>The property names the limb loop runs over, each with its field of \<open>parts\<close>.\<close>

definition LIMBS :: "(string \<times> (parts \<Rightarrow> point option)) list" where
  "LIMBS = [(''leftArm'', leftArm), (''rightArm'', rightArm),
            (''leftLeg'', leftLeg), (''rightLeg'', rightLeg)]"

definition limbMovement ::
  "parts \<Rightarrow> parts \<Rightarrow> string \<times> (parts \<Rightarrow> point option) \<Rightarrow> string list \<Rightarrow> string list" where
  "limbMovement currentParts previousParts p movements =
     (case (snd p currentParts, snd p previousParts) of
        (Some current, Some previous) \<Rightarrow>
          if distance current previous > MOVEMENT_THRESHOLD
          then movements @ [partName (fst p) @ '' movement'']
          else movements
      | _ \<Rightarrow> movements)"

definition torsoMovement :: "parts \<Rightarrow> parts \<Rightarrow> string list \<Rightarrow> string list" where
  "torsoMovement currentParts previousParts movements =
     (case (torso currentParts, torso previousParts) of
        (Some torsoCurrent, Some torsoPrevious) \<Rightarrow>
          if distance torsoCurrent torsoPrevious > MOVEMENT_THRESHOLD * 1.5
          then movements @ [''Body movement'']
          else movements
      | _ \<Rightarrow> movements)"

text \<open>The array \<open>movements\<close> at the end of the branch that has a previous snapshot.\<close>

definition detectMovements :: "parts \<Rightarrow> parts \<Rightarrow> string list" where
  "detectMovements currentParts previousParts =
     torsoMovement currentParts previousParts
       (fold (limbMovement currentParts previousParts) LIMBS
          (headMovements currentParts previousParts []))"

text \<open>The updater given to \<open>setMotionLog\<close>; \<open>timestamp\<close> is the wall-clock string.\<close>

definition record_movements :: "string \<Rightarrow> string list \<Rightarrow> entry list \<Rightarrow> entry list" where
  "record_movements timestamp movements prev =
     take 10 (map (\<lambda>m. \<lparr>entry_text = m, entry_time = timestamp\<rparr>) movements @ prev)"

definition computeParts :: "frame \<Rightarrow> parts" where
  "computeParts smoothedKeypoints =
     \<lparr>head = calculatePartCenter smoothedKeypoints BODY_PARTS_head,
      leftArm = calculatePartCenter smoothedKeypoints BODY_PARTS_leftArm,
      rightArm = calculatePartCenter smoothedKeypoints BODY_PARTS_rightArm,
      leftLeg = calculatePartCenter smoothedKeypoints BODY_PARTS_leftLeg,
      rightLeg = calculatePartCenter smoothedKeypoints BODY_PARTS_rightLeg,
      torso = calculatePartCenter smoothedKeypoints BODY_PARTS_torso\<rparr>"

text \<open>
  The part of \<open>analyzeMovement\<close> after \<open>currentParts\<close> is built. The first component of
  the result is the array \<open>movements\<close> (empty when the branch is not entered): the
  events the call emits, each logged to the console and recorded in the motion log.
\<close>

definition detect :: "string \<Rightarrow> parts \<Rightarrow> tracking \<Rightarrow> string list \<times> tracking" where
  "detect timestamp currentParts st =
     (case previousKeypointsRef st of
        None \<Rightarrow> ([], st\<lparr>previousKeypointsRef := Some currentParts\<rparr>)
      | Some previousParts \<Rightarrow>
          (let movements = detectMovements currentParts previousParts;
               st1 = (if length movements > 0
                      then st\<lparr>motionLog := record_movements timestamp movements (motionLog st)\<rparr>
                      else st)
           in (movements, st1\<lparr>previousKeypointsRef := Some currentParts\<rparr>)))"

text \<open>The argument is \<open>None\<close> for \<open>null\<close> or \<open>undefined\<close>.\<close>

definition analyzeMovement :: "string \<Rightarrow> frame option \<Rightarrow> tracking \<Rightarrow> string list \<times> tracking" where
  "analyzeMovement timestamp smoothedKeypoints st =
     (case smoothedKeypoints of
        None \<Rightarrow> ([], st)
      | Some kps \<Rightarrow>
          if length kps = 0 then ([], st)
          else detect timestamp (computeParts kps) st)"

subsection \<open>detectPose\<close>

text \<open>
  One round of the loop, from the answer of \<open>estimateSinglePose\<close> on: \<open>pose\<close> is \<open>None\<close>
  when the estimation threw or gave no keypoints.
\<close>

definition detectPose :: "string \<Rightarrow> frame option \<Rightarrow> tracking \<Rightarrow> tracking" where
  "detectPose timestamp pose st =
     (case pose of
        None \<Rightarrow> st
      | Some keypoints \<Rightarrow>
          (let (smoothedKeypoints, st1) = applyTemporalSmoothing keypoints st;
               st2 = st1\<lparr>canvas := canvas st1 @ [smoothedKeypoints]\<rparr>;
               st3 = st2\<lparr>frameCountRef := frameCountRef st2 + 1\<rparr>
           in if frameCountRef st3 mod FRAME_SKIP = 0
              then snd (analyzeMovement timestamp (Some smoothedKeypoints) st3)
              else st3))"

text \<open>The loop over the answers of the estimator, oldest first.\<close>

fun run :: "(string \<times> frame option) list \<Rightarrow> tracking \<Rightarrow> tracking" where
  "run [] st = st"
| "run ((timestamp, pose) # rest) st = run rest (detectPose timestamp pose st)"

subsection \<open>Notions of the specification\<close>

text \<open>The arithmetic mean of a list of numbers.\<close>

definition mean :: "real list \<Rightarrow> real" where
  "mean xs = sum_list xs / real (length xs)"

text \<open>The keypoints of a part that pass the confidence filter, in the order of the indices.\<close>

definition surviving :: "frame \<Rightarrow> nat list \<Rightarrow> keypoint list" where
  "surviving keypoints partIndices =
     map (\<lambda>idx. keypoints ! idx)
       (filter (\<lambda>idx. idx < length keypoints \<and> score (keypoints ! idx) \<ge> 0.5) partIndices)"

text \<open>The \<open>i\<close>-th keypoints of the history entries that have one with score at least 0.5.\<close>

definition qualifying :: "frame list \<Rightarrow> nat \<Rightarrow> keypoint list" where
  "qualifying history i =
     map (\<lambda>frame. frame ! i)
       (filter (\<lambda>frame. i < length frame \<and> score (frame ! i) \<ge> 0.5) history)"

text \<open>The last \<open>n\<close> elements of a list (all of it when it is shorter).\<close>

definition last_n :: "nat \<Rightarrow> 'a list \<Rightarrow> 'a list" where
  "last_n n xs = drop (length xs - n) xs"

text \<open>Feeding frames to the smoothing stage one after the other, oldest first.\<close>

definition feed :: "frame list \<Rightarrow> tracking \<Rightarrow> tracking" where
  "feed frames st = fold (\<lambda>keypoints s. snd (applyTemporalSmoothing keypoints s)) frames st"

text \<open>The log entries of one batch, and a sequence of record operations, oldest first.\<close>

definition entries :: "string \<times> string list \<Rightarrow> entry list" where
  "entries b = map (\<lambda>m. \<lparr>entry_text = m, entry_time = fst b\<rparr>) (snd b)"

definition record_all :: "(string \<times> string list) list \<Rightarrow> entry list \<Rightarrow> entry list" where
  "record_all batches entries0 =
     fold (\<lambda>b l. record_movements (fst b) (snd b) l) batches entries0"

text \<open>The texts of the head events.\<close>

definition HEAD_TURNS :: "string list" where
  "HEAD_TURNS = [''Head turned left'', ''Head turned right'']"

definition HEAD_TILTS :: "string list" where
  "HEAD_TILTS = [''Head tilted down'', ''Head tilted up'']"

text \<open>The rounds of a run whose pose estimation gave keypoints.\<close>

definition successful :: "(string \<times> frame option) list \<Rightarrow> (string \<times> frame option) list" where
  "successful inputs = filter (\<lambda>input. snd input \<noteq> None) inputs"

subsection \<open>Example inputs\<close>

text \<open>
  Frames of 17 keypoints for the concrete instances: a keypoint of a given score and
  position; two frames whose keypoint 1 is under the threshold; a frame with a confident
  nose only; a frame with confident shoulders and hips only, all at \<open>(a, b)\<close>.
\<close>

definition keypoint_at :: "real \<Rightarrow> real \<Rightarrow> real \<Rightarrow> keypoint" where
  "keypoint_at s a b = \<lparr>score = s, part = ''nose'', position = \<lparr>pos_x = a, pos_y = b\<rparr>\<rparr>"

definition frame_a :: frame where
  "frame_a = keypoint_at 0.9 0 0 # keypoint_at 0.4 50 50 # replicate 15 (keypoint_at 0.9 0 0)"

definition frame_b :: frame where
  "frame_b = keypoint_at 0.7 10 20 # keypoint_at 0.3 60 70 # replicate 15 (keypoint_at 0.7 10 20)"

definition after_a :: tracking where
  "after_a = initial\<lparr>keypointHistoryRef := [frame_a]\<rparr>"

definition head_frame :: "real \<Rightarrow> real \<Rightarrow> frame" where
  "head_frame a b = keypoint_at 0.9 a b # replicate 16 (keypoint_at 0.1 0 0)"

definition torso_frame :: "real \<Rightarrow> real \<Rightarrow> frame" where
  "torso_frame a b =
     replicate 5 (keypoint_at 0.1 0 0) @ [keypoint_at 0.9 a b, keypoint_at 0.9 a b] @
     replicate 4 (keypoint_at 0.1 0 0) @ [keypoint_at 0.9 a b, keypoint_at 0.9 a b] @
     replicate 4 (keypoint_at 0.1 0 0)"

definition with_previous :: "frame \<Rightarrow> tracking" where
  "with_previous keypoints = initial\<lparr>previousKeypointsRef := Some (computeParts keypoints)\<rparr>"

section \<open>Properties\<close>

subsection \<open>The accumulator loops compute sums over the filtered keypoints\<close>

lemma fold_addKeypoint:
  "fold (addKeypoint kps) idxs (sx, sy, n) =
     (sx + sum_list (map (\<lambda>k. pos_x (position k)) (surviving kps idxs)),
      sy + sum_list (map (\<lambda>k. pos_y (position k)) (surviving kps idxs)),
      n + length (surviving kps idxs))"
  by (induction idxs arbitrary: sx sy n)
     (simp_all add: addKeypoint_def surviving_def CONFIDENCE_THRESHOLD_def)

lemma fold_accumulate:
  "fold (accumulate i) history (sx, sy, ss, n) =
     (sx + sum_list (map (\<lambda>k. pos_x (position k)) (qualifying history i)),
      sy + sum_list (map (\<lambda>k. pos_y (position k)) (qualifying history i)),
      ss + sum_list (map score (qualifying history i)),
      n + length (qualifying history i))"
  by (induction history arbitrary: sx sy ss n)
     (simp_all add: accumulate_def qualifying_def CONFIDENCE_THRESHOLD_def)

lemma calculatePartCenter_eq:
  "calculatePartCenter keypoints partIndices =
     (if surviving keypoints partIndices = [] then None
      else Some \<lparr>pos_x = mean (map (\<lambda>k. pos_x (position k)) (surviving keypoints partIndices)),
                 pos_y = mean (map (\<lambda>k. pos_y (position k)) (surviving keypoints partIndices))\<rparr>)"
  by (simp add: calculatePartCenter_def fold_addKeypoint mean_def)

lemma smoothKeypoint_eq:
  "smoothKeypoint history kp i =
     (if qualifying history i = [] then kp
      else kp\<lparr>position := \<lparr>pos_x = mean (map (\<lambda>k. pos_x (position k)) (qualifying history i)),
                            pos_y = mean (map (\<lambda>k. pos_y (position k)) (qualifying history i))\<rparr>,
              score := mean (map score (qualifying history i))\<rparr>)"
  by (simp add: smoothKeypoint_def fold_accumulate mean_def)

lemma mean_ge:
  assumes "xs \<noteq> []" and "\<forall>v \<in> set xs. c \<le> v"
  shows "c \<le> mean xs"
proof -
  have "\<forall>v \<in> set xs. c \<le> v \<Longrightarrow> c * real (length xs) \<le> sum_list xs"
    by (induction xs) (auto simp: algebra_simps)
  with assms show ?thesis
    by (simp add: mean_def pos_le_divide_eq)
qed

lemma qualifying_score: "k \<in> set (qualifying history i) \<Longrightarrow> 0.5 \<le> score k"
  by (auto simp: qualifying_def)

subsection \<open>The history of the smoothing stage\<close>

lemma history_applyTemporalSmoothing:
  "keypointHistoryRef (snd (applyTemporalSmoothing keypoints st)) =
     (if length (keypointHistoryRef st) \<ge> SMOOTHING_WINDOW
      then tl (keypointHistoryRef st @ [keypoints])
      else keypointHistoryRef st @ [keypoints])"
  by (simp add: applyTemporalSmoothing_def Let_def)

lemma fst_applyTemporalSmoothing:
  "fst (applyTemporalSmoothing keypoints st) =
     (let history = keypointHistoryRef (snd (applyTemporalSmoothing keypoints st))
      in if length history < 2 then keypoints
         else map (\<lambda>(i, kp). smoothKeypoint history kp i) (enumerate 0 keypoints))"
  by (simp add: applyTemporalSmoothing_def Let_def)

lemma nth_smoothed:
  "i < length keypoints \<Longrightarrow>
     map (\<lambda>(i, kp). smoothKeypoint history kp i) (enumerate 0 keypoints) ! i =
     smoothKeypoint history (keypoints ! i) i"
  by (simp add: nth_enumerate_eq)

lemma push_last_n:
  assumes "length h \<le> 5"
  shows "(if length h \<ge> 5 then tl (h @ [k]) else h @ [k]) = last_n 5 (h @ [k])"
proof (cases "length h = 5")
  case True
  then have "h \<noteq> []" by auto
  with True show ?thesis by (simp add: last_n_def drop_Suc)
next
  case False
  with assms show ?thesis by (simp add: last_n_def)
qed

lemma last_n_last_n_append: "last_n n (last_n n xs @ ys) = last_n n (xs @ ys)"
proof (cases "length xs \<le> n")
  case True
  then show ?thesis by (simp add: last_n_def)
next
  case False
  then have "length xs + length ys - (length xs - n + n) + (length xs - n) =
      length xs + length ys - n"
    by arith
  then show ?thesis by (simp add: last_n_def)
qed

lemma length_last_n: "length (last_n n xs) = min n (length xs)"
  by (simp add: last_n_def)

lemma feed_history:
  "length (keypointHistoryRef st) \<le> 5 \<Longrightarrow>
     keypointHistoryRef (feed frames st) = last_n 5 (keypointHistoryRef st @ frames)"
proof (induction frames arbitrary: st)
  case Nil
  then show ?case by (simp add: feed_def last_n_def)
next
  case (Cons k ks)
  let ?st1 = "snd (applyTemporalSmoothing k st)"
  have h1: "keypointHistoryRef ?st1 = last_n 5 (keypointHistoryRef st @ [k])"
    using push_last_n [OF Cons.prems, of k]
    by (simp add: history_applyTemporalSmoothing SMOOTHING_WINDOW_def)
  then have "length (keypointHistoryRef ?st1) \<le> 5"
    by (simp add: length_last_n)
  from Cons.IH [OF this]
  have "keypointHistoryRef (feed ks ?st1) = last_n 5 (keypointHistoryRef ?st1 @ ks)" .
  then show ?case
    by (simp add: h1 last_n_last_n_append feed_def)
qed

subsection \<open>Claims\<close>

text \<open>
  C5. For every frame and every sequence of part indices, \<open>calculatePartCenter\<close> returns
  the arithmetic mean \<open>(x, y)\<close> of exactly the indexed keypoints whose score is at least
  0.5 (an index with no keypoint is skipped), and \<open>None\<close> when no keypoint survives the
  filter; keypoints at (0,0) and (10,10), both of score 0.9, have centre (5,5). The
  result is a function of the two arguments alone: the source reads nothing else but a
  constant and writes nothing.
\<close>

theorem calculatePartCenter_mean:
  "calculatePartCenter keypoints partIndices =
     (if surviving keypoints partIndices = [] then None
      else Some \<lparr>pos_x = mean (map (\<lambda>k. pos_x (position k)) (surviving keypoints partIndices)),
                 pos_y = mean (map (\<lambda>k. pos_y (position k)) (surviving keypoints partIndices))\<rparr>)
   \<and> calculatePartCenter
       [\<lparr>score = 0.9, part = p, position = \<lparr>pos_x = 0, pos_y = 0\<rparr>\<rparr>,
        \<lparr>score = 0.9, part = q, position = \<lparr>pos_x = 10, pos_y = 10\<rparr>\<rparr>] [0, 1]
       = Some \<lparr>pos_x = 5, pos_y = 5\<rparr>"
  by (simp add: calculatePartCenter_eq [symmetric])
     (simp add: calculatePartCenter_eq surviving_def mean_def)

theorem calculatePartCenter_mean_witness:
  "calculatePartCenter
     [\<lparr>score = 0.9, part = ''nose'', position = \<lparr>pos_x = 0, pos_y = 0\<rparr>\<rparr>,
      \<lparr>score = 0.4, part = ''leftEye'', position = \<lparr>pos_x = 100, pos_y = 60\<rparr>\<rparr>,
      \<lparr>score = 0.5, part = ''rightEye'', position = \<lparr>pos_x = 10, pos_y = 10\<rparr>\<rparr>] [0, 1, 2, 3, 4]
     = Some \<lparr>pos_x = 5, pos_y = 5\<rparr>
   \<and> calculatePartCenter
     [\<lparr>score = 0.4, part = ''nose'', position = \<lparr>pos_x = 3, pos_y = 4\<rparr>\<rparr>] [0, 1, 2, 3, 4] = None"
  using calculatePartCenter_mean [of
      "[\<lparr>score = 0.9, part = ''nose'', position = \<lparr>pos_x = 0, pos_y = 0\<rparr>\<rparr>,
        \<lparr>score = 0.4, part = ''leftEye'', position = \<lparr>pos_x = 100, pos_y = 60\<rparr>\<rparr>,
        \<lparr>score = 0.5, part = ''rightEye'', position = \<lparr>pos_x = 10, pos_y = 10\<rparr>\<rparr>]"
      "[0, 1, 2, 3, 4]"]
    calculatePartCenter_mean [of
      "[\<lparr>score = 0.4, part = ''nose'', position = \<lparr>pos_x = 3, pos_y = 4\<rparr>\<rparr>]" "[0, 1, 2, 3, 4]"]
  by (simp add: surviving_def mean_def)

text \<open>
  C6. Each call of the smoothing stage appends the new frame to the history and drops
  the oldest entry once the length exceeds 5. So, from a history of at most 5 entries
  (the initial one is empty), after any sequence of frames the history is the last 5
  of the frames seen: it never has more than 5 entries, and it has exactly 5 once more
  than 5 frames were fed.
\<close>

theorem history_bound:
  "keypointHistoryRef (snd (applyTemporalSmoothing keypoints st)) =
     (if length (keypointHistoryRef st @ [keypoints]) > SMOOTHING_WINDOW
      then tl (keypointHistoryRef st @ [keypoints])
      else keypointHistoryRef st @ [keypoints])
   \<and> (length (keypointHistoryRef st) \<le> SMOOTHING_WINDOW \<longrightarrow>
        keypointHistoryRef (feed frames st) =
          last_n SMOOTHING_WINDOW (keypointHistoryRef st @ frames)
      \<and> length (keypointHistoryRef (feed frames st)) \<le> SMOOTHING_WINDOW
      \<and> (length frames > SMOOTHING_WINDOW \<longrightarrow>
           length (keypointHistoryRef (feed frames st)) = SMOOTHING_WINDOW))"
proof -
  have step: "keypointHistoryRef (snd (applyTemporalSmoothing keypoints st)) =
     (if length (keypointHistoryRef st @ [keypoints]) > SMOOTHING_WINDOW
      then tl (keypointHistoryRef st @ [keypoints])
      else keypointHistoryRef st @ [keypoints])"
    by (simp add: applyTemporalSmoothing_def Let_def)
  have many: "keypointHistoryRef (feed frames st) = last_n 5 (keypointHistoryRef st @ frames)"
    if "length (keypointHistoryRef st) \<le> 5"
    using feed_history [OF that] .
  show ?thesis
    using step many by (auto simp: SMOOTHING_WINDOW_def length_last_n)
qed

theorem history_bound_witness:
  "keypointHistoryRef (feed
       [[\<lparr>score = 0.1, part = ''nose'', position = \<lparr>pos_x = 1, pos_y = 2\<rparr>\<rparr>],
        [\<lparr>score = 0.2, part = ''nose'', position = \<lparr>pos_x = 1, pos_y = 2\<rparr>\<rparr>],
        [\<lparr>score = 0.3, part = ''nose'', position = \<lparr>pos_x = 1, pos_y = 2\<rparr>\<rparr>],
        [\<lparr>score = 0.4, part = ''nose'', position = \<lparr>pos_x = 1, pos_y = 2\<rparr>\<rparr>],
        [\<lparr>score = 0.5, part = ''nose'', position = \<lparr>pos_x = 1, pos_y = 2\<rparr>\<rparr>],
        [\<lparr>score = 0.6, part = ''nose'', position = \<lparr>pos_x = 1, pos_y = 2\<rparr>\<rparr>],
        [\<lparr>score = 0.7, part = ''nose'', position = \<lparr>pos_x = 1, pos_y = 2\<rparr>\<rparr>]] initial) =
       [[\<lparr>score = 0.3, part = ''nose'', position = \<lparr>pos_x = 1, pos_y = 2\<rparr>\<rparr>],
        [\<lparr>score = 0.4, part = ''nose'', position = \<lparr>pos_x = 1, pos_y = 2\<rparr>\<rparr>],
        [\<lparr>score = 0.5, part = ''nose'', position = \<lparr>pos_x = 1, pos_y = 2\<rparr>\<rparr>],
        [\<lparr>score = 0.6, part = ''nose'', position = \<lparr>pos_x = 1, pos_y = 2\<rparr>\<rparr>],
        [\<lparr>score = 0.7, part = ''nose'', position = \<lparr>pos_x = 1, pos_y = 2\<rparr>\<rparr>]]
   \<and> length (keypointHistoryRef (feed
       [[\<lparr>score = 0.1, part = ''nose'', position = \<lparr>pos_x = 1, pos_y = 2\<rparr>\<rparr>],
        [\<lparr>score = 0.2, part = ''nose'', position = \<lparr>pos_x = 1, pos_y = 2\<rparr>\<rparr>],
        [\<lparr>score = 0.3, part = ''nose'', position = \<lparr>pos_x = 1, pos_y = 2\<rparr>\<rparr>],
        [\<lparr>score = 0.4, part = ''nose'', position = \<lparr>pos_x = 1, pos_y = 2\<rparr>\<rparr>],
        [\<lparr>score = 0.5, part = ''nose'', position = \<lparr>pos_x = 1, pos_y = 2\<rparr>\<rparr>],
        [\<lparr>score = 0.6, part = ''nose'', position = \<lparr>pos_x = 1, pos_y = 2\<rparr>\<rparr>],
        [\<lparr>score = 0.7, part = ''nose'', position = \<lparr>pos_x = 1, pos_y = 2\<rparr>\<rparr>]] initial)) = 5"
  using history_bound [where keypoints = "[]" and st = initial and frames =
       "[[\<lparr>score = 0.1, part = ''nose'', position = \<lparr>pos_x = 1, pos_y = 2\<rparr>\<rparr>],
        [\<lparr>score = 0.2, part = ''nose'', position = \<lparr>pos_x = 1, pos_y = 2\<rparr>\<rparr>],
        [\<lparr>score = 0.3, part = ''nose'', position = \<lparr>pos_x = 1, pos_y = 2\<rparr>\<rparr>],
        [\<lparr>score = 0.4, part = ''nose'', position = \<lparr>pos_x = 1, pos_y = 2\<rparr>\<rparr>],
        [\<lparr>score = 0.5, part = ''nose'', position = \<lparr>pos_x = 1, pos_y = 2\<rparr>\<rparr>],
        [\<lparr>score = 0.6, part = ''nose'', position = \<lparr>pos_x = 1, pos_y = 2\<rparr>\<rparr>],
        [\<lparr>score = 0.7, part = ''nose'', position = \<lparr>pos_x = 1, pos_y = 2\<rparr>\<rparr>]]"]
  by (simp add: initial_def SMOOTHING_WINDOW_def last_n_def)

text \<open>
  C1. For every call of the smoothing stage (a frame of 17 entries, or of any other
  length): if the history, after the frame is appended, has fewer than 2 entries, the
  returned frame is the input frame; otherwise the result has the length of the input
  and, for each index \<open>i\<close>, the returned keypoint has as position and score the
  arithmetic means over the history entries whose \<open>i\<close>-th keypoint has score at least
  0.5 (the other fields are those of the input keypoint), and is the input frame's own
  \<open>i\<close>-th keypoint when no history entry qualifies.
\<close>

theorem applyTemporalSmoothing_mean:
  "(let out = fst (applyTemporalSmoothing keypoints st);
        history = keypointHistoryRef (snd (applyTemporalSmoothing keypoints st))
    in (length (keypointHistoryRef st @ [keypoints]) < 2 \<longrightarrow> out = keypoints)
     \<and> (length history < 2 \<longrightarrow> out = keypoints)
     \<and> (2 \<le> length history \<longrightarrow>
          length out = length keypoints
        \<and> (\<forall>i < length keypoints.
             out ! i =
               (if qualifying history i = [] then keypoints ! i
                else (keypoints ! i)
                  \<lparr>position :=
                     \<lparr>pos_x = mean (map (\<lambda>k. pos_x (position k)) (qualifying history i)),
                      pos_y = mean (map (\<lambda>k. pos_y (position k)) (qualifying history i))\<rparr>,
                   score := mean (map score (qualifying history i))\<rparr>))))"
proof -
  let ?history = "keypointHistoryRef (snd (applyTemporalSmoothing keypoints st))"
  let ?out = "fst (applyTemporalSmoothing keypoints st)"
  have short: "?out = keypoints" if "length ?history < 2"
    using that fst_applyTemporalSmoothing [of keypoints st] by (simp add: Let_def)
  have long: "?out = map (\<lambda>(i, keypoint_at). smoothKeypoint ?history keypoint_at i) (enumerate 0 keypoints)"
    if "2 \<le> length ?history"
    using that fst_applyTemporalSmoothing [of keypoints st] by (simp add: Let_def)
  have first: "?out = keypoints" if "length (keypointHistoryRef st @ [keypoints]) < 2"
  proof -
    from that have "length ?history < 2"
      by (simp add: history_applyTemporalSmoothing SMOOTHING_WINDOW_def)
    then show ?thesis by (rule short)
  qed
  have len: "length ?out = length keypoints" if "2 \<le> length ?history"
    by (simp add: long [OF that])
  have nth: "?out ! i = smoothKeypoint ?history (keypoints ! i) i"
    if "2 \<le> length ?history" "i < length keypoints" for i
    by (simp add: long [OF that(1)] nth_smoothed [OF that(2)])
  show ?thesis
    unfolding Let_def
    using short first len nth by (simp add: smoothKeypoint_eq)
qed

lemma history_after_a:
  "keypointHistoryRef (snd (applyTemporalSmoothing frame_b after_a)) = [frame_a, frame_b]"
  by (simp add: history_applyTemporalSmoothing after_a_def initial_def SMOOTHING_WINDOW_def)

lemma history_first:
  "keypointHistoryRef (snd (applyTemporalSmoothing frame_b initial)) = [frame_b]"
  by (simp add: history_applyTemporalSmoothing initial_def SMOOTHING_WINDOW_def)

lemma qualifying_ab:
  "qualifying [frame_a, frame_b] 0 = [keypoint_at 0.9 0 0, keypoint_at 0.7 10 20]"
  "qualifying [frame_a, frame_b] (Suc 0) = []"
  by (simp_all add: qualifying_def frame_a_def frame_b_def keypoint_at_def)

lemma nth_frame_b:
  "frame_b ! 0 = keypoint_at 0.7 10 20" "frame_b ! Suc 0 = keypoint_at 0.3 60 70"
  by (simp_all add: frame_b_def)

lemma length_frame_b: "length frame_b = 17"
  by (simp add: frame_b_def)

theorem applyTemporalSmoothing_mean_witness:
  "length frame_b = 17
   \<and> fst (applyTemporalSmoothing frame_b initial) = frame_b
   \<and> fst (applyTemporalSmoothing frame_b after_a) ! 0 = keypoint_at 0.8 5 10
   \<and> fst (applyTemporalSmoothing frame_b after_a) ! 1 = keypoint_at 0.3 60 70"
proof -
  have one: "fst (applyTemporalSmoothing frame_b initial) = frame_b"
    using applyTemporalSmoothing_mean [of frame_b initial]
    by (simp add: Let_def history_first)
  have every: "\<forall>i<17. fst (applyTemporalSmoothing frame_b after_a) ! i =
      (if qualifying [frame_a, frame_b] i = [] then frame_b ! i
       else (frame_b ! i)
         \<lparr>position :=
            \<lparr>pos_x = mean (map (\<lambda>k. pos_x (position k)) (qualifying [frame_a, frame_b] i)),
             pos_y = mean (map (\<lambda>k. pos_y (position k)) (qualifying [frame_a, frame_b] i))\<rparr>,
          score := mean (map score (qualifying [frame_a, frame_b] i))\<rparr>)"
    using applyTemporalSmoothing_mean [of frame_b after_a]
    by (simp add: Let_def history_after_a length_frame_b)
  have two: "fst (applyTemporalSmoothing frame_b after_a) ! 0 = keypoint_at 0.8 5 10"
    using every [rule_format, of 0]
    by (simp add: qualifying_ab mean_def nth_frame_b) (simp add: keypoint_at_def)
  have three: "fst (applyTemporalSmoothing frame_b after_a) ! 1 = keypoint_at 0.3 60 70"
    using every [rule_format, of 1]
    by (simp add: qualifying_ab nth_frame_b)
  from one two three length_frame_b show ?thesis by simp
qed

text \<open>
  C9. At an index \<open>i\<close> where the smoothing stage averages (the history holds at least 2
  frames and at least one entry has an \<open>i\<close>-th keypoint of score at least 0.5), the
  returned score is at least 0.5. So the part aggregator counts the smoothed keypoint
  (its filter lets it through), and the centre of a part that lists \<open>i\<close> is defined.
\<close>

theorem smoothed_score_confident:
  assumes "2 \<le> length (keypointHistoryRef (snd (applyTemporalSmoothing keypoints st)))"
    and "i < length keypoints"
    and "qualifying (keypointHistoryRef (snd (applyTemporalSmoothing keypoints st))) i \<noteq> []"
  shows "score (fst (applyTemporalSmoothing keypoints st) ! i) \<ge> CONFIDENCE_THRESHOLD
       \<and> addKeypoint (fst (applyTemporalSmoothing keypoints st)) i (sumX, sumY, count) =
           (sumX + pos_x (position (fst (applyTemporalSmoothing keypoints st) ! i)),
            sumY + pos_y (position (fst (applyTemporalSmoothing keypoints st) ! i)),
            count + 1)
       \<and> (i \<in> set partIndices \<longrightarrow>
            calculatePartCenter (fst (applyTemporalSmoothing keypoints st)) partIndices \<noteq> None)"
proof -
  let ?history = "keypointHistoryRef (snd (applyTemporalSmoothing keypoints st))"
  let ?out = "fst (applyTemporalSmoothing keypoints st)"
  have out: "?out = map (\<lambda>(i, keypoint_at). smoothKeypoint ?history keypoint_at i) (enumerate 0 keypoints)"
    using assms(1) fst_applyTemporalSmoothing [of keypoints st] by (simp add: Let_def)
  then have len: "length ?out = length keypoints" by simp
  have "?out ! i = smoothKeypoint ?history (keypoints ! i) i"
    by (simp add: out nth_smoothed [OF assms(2)])
  then have sc: "score (?out ! i) = mean (map score (qualifying ?history i))"
    using assms(3) by (simp add: smoothKeypoint_eq)
  have "0.5 \<le> mean (map score (qualifying ?history i))"
    using assms(3) by (intro mean_ge) (auto dest: qualifying_score)
  with sc have ge: "0.5 \<le> score (?out ! i)" by simp
  have part: "calculatePartCenter ?out partIndices \<noteq> None" if "i \<in> set partIndices"
  proof -
    from that ge assms(2) len have "?out ! i \<in> set (surviving ?out partIndices)"
      by (auto simp: surviving_def)
    then have "surviving ?out partIndices \<noteq> []" by auto
    then show ?thesis by (simp add: calculatePartCenter_eq)
  qed
  from ge assms(2) len part show ?thesis
    by (simp add: CONFIDENCE_THRESHOLD_def addKeypoint_def)
qed

theorem smoothed_score_confident_witness:
  "CONFIDENCE_THRESHOLD \<le> score (fst (applyTemporalSmoothing frame_b after_a) ! 0)
   \<and> calculatePartCenter (fst (applyTemporalSmoothing frame_b after_a)) BODY_PARTS_head \<noteq> None"
  using smoothed_score_confident [where keypoints = frame_b and st = after_a and i = 0
      and partIndices = BODY_PARTS_head and sumX = 0 and sumY = 0 and count = 0]
  by (simp add: history_after_a length_frame_b qualifying_ab BODY_PARTS_head_def)

subsection \<open>The events of a call\<close>

lemma partName_limbs:
  "partName ''leftArm'' = ''left Arm''" "partName ''rightArm'' = ''right Arm''"
  "partName ''leftLeg'' = ''left Leg''" "partName ''rightLeg'' = ''right Leg''"
  by (simp_all add: partName_def trim_def is_upper_def is_space_def)

lemma headMovements_append:
  "headMovements cur prev ms = ms @ headMovements cur prev []"
  by (simp add: headMovements_def Let_def split: option.splits)

lemma limbMovement_append:
  "limbMovement cur prev p ms = ms @ limbMovement cur prev p []"
  by (simp add: limbMovement_def split: option.splits)

lemma torsoMovement_append:
  "torsoMovement cur prev ms = ms @ torsoMovement cur prev []"
  by (simp add: torsoMovement_def split: option.splits)

lemma fold_limbMovement:
  "fold (limbMovement cur prev) ps ms = ms @ concat (map (\<lambda>p. limbMovement cur prev p []) ps)"
proof (induction ps arbitrary: ms)
  case Nil
  show ?case by simp
next
  case (Cons p ps)
  show ?case
    using limbMovement_append [of cur prev p ms] by (simp add: Cons.IH)
qed

lemma detectMovements_split:
  "detectMovements cur prev =
     headMovements cur prev [] @
     limbMovement cur prev (''leftArm'', leftArm) [] @
     limbMovement cur prev (''rightArm'', rightArm) [] @
     limbMovement cur prev (''leftLeg'', leftLeg) [] @
     limbMovement cur prev (''rightLeg'', rightLeg) [] @
     torsoMovement cur prev []"
  unfolding detectMovements_def
  by (subst torsoMovement_append, subst fold_limbMovement) (simp add: LIMBS_def)

lemma filter_limb:
  "\<not> P (partName name @ '' movement'') \<Longrightarrow> filter P (limbMovement cur prev (name, sel) []) = []"
  by (simp add: limbMovement_def split: option.splits)

lemma filter_torso:
  "\<not> P ''Body movement'' \<Longrightarrow> filter P (torsoMovement cur prev []) = []"
  by (simp add: torsoMovement_def split: option.splits)

lemma filter_head:
  "\<forall>e \<in> set (HEAD_TURNS @ HEAD_TILTS). \<not> P e \<Longrightarrow> filter P (headMovements cur prev []) = []"
  by (simp add: headMovements_def HEAD_TURNS_def HEAD_TILTS_def Let_def split: option.splits)

lemma head_turn_filter:
  assumes "head cur = Some hc" "head prev = Some hp"
  shows "filter (\<lambda>e. e \<in> set HEAD_TURNS) (headMovements cur prev []) =
          (if \<bar>pos_x hc - pos_x hp\<bar> > 15
           then [if pos_x hc - pos_x hp > 0 then ''Head turned left'' else ''Head turned right'']
           else [])"
  using assms
  by (simp add: headMovements_def HEAD_TURNS_def Let_def MOVEMENT_THRESHOLD_def)

lemma head_tilt_filter:
  assumes "head cur = Some hc" "head prev = Some hp"
  shows "filter (\<lambda>e. e \<in> set HEAD_TILTS) (headMovements cur prev []) =
          (if \<bar>pos_y hc - pos_y hp\<bar> > 15
           then [if pos_y hc - pos_y hp > 0 then ''Head tilted down'' else ''Head tilted up'']
           else [])"
  using assms
  by (simp add: headMovements_def HEAD_TILTS_def Let_def MOVEMENT_THRESHOLD_def)

lemma head_all_filter:
  "filter (\<lambda>e. e \<in> set (HEAD_TURNS @ HEAD_TILTS)) (headMovements cur prev []) = headMovements cur prev []"
  by (simp add: headMovements_def HEAD_TURNS_def HEAD_TILTS_def Let_def split: option.splits)

lemma filter_rest_turn:
  "filter (\<lambda>e. e \<in> set HEAD_TURNS) (detectMovements cur prev) =
   filter (\<lambda>e. e \<in> set HEAD_TURNS) (headMovements cur prev [])"
  by (simp add: detectMovements_split filter_limb filter_torso partName_limbs HEAD_TURNS_def)

lemma filter_rest_tilt:
  "filter (\<lambda>e. e \<in> set HEAD_TILTS) (detectMovements cur prev) =
   filter (\<lambda>e. e \<in> set HEAD_TILTS) (headMovements cur prev [])"
  by (simp add: detectMovements_split filter_limb filter_torso partName_limbs HEAD_TILTS_def)

lemma filter_rest_head:
  "filter (\<lambda>e. e \<in> set (HEAD_TURNS @ HEAD_TILTS)) (detectMovements cur prev) = headMovements cur prev []"
  by (simp add: detectMovements_split filter_limb filter_torso partName_limbs HEAD_TURNS_def HEAD_TILTS_def head_all_filter [unfolded HEAD_TURNS_def HEAD_TILTS_def, simplified])

lemma count_head:
  "e \<notin> set (HEAD_TURNS @ HEAD_TILTS) \<Longrightarrow> count_list (headMovements cur prev []) e = 0"
  by (simp add: headMovements_def HEAD_TURNS_def HEAD_TILTS_def Let_def split: option.splits)

lemma count_limb_other:
  "e \<noteq> partName name @ '' movement'' \<Longrightarrow> count_list (limbMovement cur prev (name, sel) []) e = 0"
  by (simp add: limbMovement_def split: option.splits)

lemma count_limb_self:
  "sel cur = Some c \<Longrightarrow> sel prev = Some p \<Longrightarrow>
     count_list (limbMovement cur prev (name, sel) []) (partName name @ '' movement'') =
       (if distance c p > 15 then 1 else 0)"
  by (simp add: limbMovement_def MOVEMENT_THRESHOLD_def)

lemma count_torso_other:
  "e \<noteq> ''Body movement'' \<Longrightarrow> count_list (torsoMovement cur prev []) e = 0"
  by (simp add: torsoMovement_def split: option.splits)

lemma count_torso_self:
  "torso cur = Some c \<Longrightarrow> torso prev = Some p \<Longrightarrow>
     count_list (torsoMovement cur prev []) ''Body movement'' =
       (if distance c p > 22.5 then 1 else 0)"
  by (simp add: torsoMovement_def MOVEMENT_THRESHOLD_def)

lemma count_leftArm:
  "leftArm cur = Some c \<Longrightarrow> leftArm prev = Some p \<Longrightarrow>
   count_list (detectMovements cur prev) ''left Arm movement'' = (if distance c p > 15 then 1 else 0)"
  using count_limb_self [of leftArm cur c prev p "''leftArm''"]
  by (simp add: detectMovements_split count_head count_limb_other count_torso_other partName_limbs
        HEAD_TURNS_def HEAD_TILTS_def)

lemma count_rightArm:
  "rightArm cur = Some c \<Longrightarrow> rightArm prev = Some p \<Longrightarrow>
   count_list (detectMovements cur prev) ''right Arm movement'' = (if distance c p > 15 then 1 else 0)"
  using count_limb_self [of rightArm cur c prev p "''rightArm''"]
  by (simp add: detectMovements_split count_head count_limb_other count_torso_other partName_limbs
        HEAD_TURNS_def HEAD_TILTS_def)

lemma count_leftLeg:
  "leftLeg cur = Some c \<Longrightarrow> leftLeg prev = Some p \<Longrightarrow>
   count_list (detectMovements cur prev) ''left Leg movement'' = (if distance c p > 15 then 1 else 0)"
  using count_limb_self [of leftLeg cur c prev p "''leftLeg''"]
  by (simp add: detectMovements_split count_head count_limb_other count_torso_other partName_limbs
        HEAD_TURNS_def HEAD_TILTS_def)

lemma count_rightLeg:
  "rightLeg cur = Some c \<Longrightarrow> rightLeg prev = Some p \<Longrightarrow>
   count_list (detectMovements cur prev) ''right Leg movement'' = (if distance c p > 15 then 1 else 0)"
  using count_limb_self [of rightLeg cur c prev p "''rightLeg''"]
  by (simp add: detectMovements_split count_head count_limb_other count_torso_other partName_limbs
        HEAD_TURNS_def HEAD_TILTS_def)

lemma count_torso:
  "torso cur = Some c \<Longrightarrow> torso prev = Some p \<Longrightarrow>
   count_list (detectMovements cur prev) ''Body movement'' = (if distance c p > 22.5 then 1 else 0)"
  using count_torso_self [of cur c prev p]
  by (simp add: detectMovements_split count_head count_limb_other partName_limbs
        HEAD_TURNS_def HEAD_TILTS_def)

lemma sqrt_gt_iff: "0 \<le> t \<Longrightarrow> (t < sqrt v) = (t\<^sup>2 < v)"
proof -
  assume "0 \<le> t"
  then have "sqrt (t\<^sup>2) = t" by simp
  then have "(t < sqrt v) = (sqrt (t\<^sup>2) < sqrt v)" by simp
  then show ?thesis by (simp only: real_sqrt_less_iff)
qed

lemma fst_detect:
  "previousKeypointsRef st = Some previousParts \<Longrightarrow>
     fst (detect timestamp currentParts st) = detectMovements currentParts previousParts"
  by (simp add: detect_def Let_def)

lemma length_headMovements: "length (headMovements cur prev []) \<le> 2"
  by (simp add: headMovements_def Let_def split: option.splits)

lemma computeParts_head_frame:
  "computeParts (head_frame a b) =
     \<lparr>head = Some \<lparr>pos_x = a, pos_y = b\<rparr>, leftArm = None, rightArm = None,
      leftLeg = None, rightLeg = None, torso = None\<rparr>"
  by (simp add: computeParts_def calculatePartCenter_eq surviving_def mean_def head_frame_def keypoint_at_def
      BODY_PARTS_head_def BODY_PARTS_leftArm_def BODY_PARTS_rightArm_def BODY_PARTS_leftLeg_def
      BODY_PARTS_rightLeg_def BODY_PARTS_torso_def)

lemma computeParts_torso_frame:
  "computeParts (torso_frame a b) =
     \<lparr>head = None, leftArm = Some \<lparr>pos_x = a, pos_y = b\<rparr>, rightArm = Some \<lparr>pos_x = a, pos_y = b\<rparr>,
      leftLeg = Some \<lparr>pos_x = a, pos_y = b\<rparr>, rightLeg = Some \<lparr>pos_x = a, pos_y = b\<rparr>,
      torso = Some \<lparr>pos_x = a, pos_y = b\<rparr>\<rparr>"
  by (simp add: computeParts_def calculatePartCenter_eq surviving_def mean_def torso_frame_def keypoint_at_def
      BODY_PARTS_head_def BODY_PARTS_leftArm_def BODY_PARTS_rightArm_def BODY_PARTS_leftLeg_def
      BODY_PARTS_rightLeg_def BODY_PARTS_torso_def nth_append)

lemma head_frame_nonempty: "head_frame a b \<noteq> []" "length (head_frame a b) = 17"
  by (simp_all add: head_frame_def)

lemma torso_frame_nonempty: "torso_frame a b \<noteq> []" "length (torso_frame a b) = 17"
  by (simp_all add: torso_frame_def)

lemma previous_with_previous:
  "previousKeypointsRef (with_previous keypoints) = Some (computeParts keypoints)"
  by (simp add: with_previous_def)

lemma analyzeMovement_nonempty:
  "keypoints \<noteq> [] \<Longrightarrow>
     analyzeMovement timestamp (Some keypoints) st = detect timestamp (computeParts keypoints) st"
  by (simp add: analyzeMovement_def)

text \<open>
  C2. In a call of the movement detector with a previous snapshot, when the current and
  the previous head centre are both defined, each axis is tested on its own. With
  \<open>dx\<close> the horizontal displacement, the emitted events hold exactly one turn event if
  \<open>|dx| > 15\<close> (\<open>Head turned left\<close> when \<open>dx > 0\<close>, \<open>Head turned right\<close> otherwise) and none
  if not; with \<open>dy\<close> the vertical one, exactly one tilt event if \<open>|dy| > 15\<close>
  (\<open>Head tilted down\<close> when \<open>dy > 0\<close>, \<open>Head tilted up\<close> otherwise) and none if not. A
  call emits at most two head events, and a displacement of (20, 0) gives the single
  head event \<open>Head turned left\<close>.
\<close>

theorem head_events:
  assumes "previousKeypointsRef st = Some previousParts"
    and "head currentParts = Some headCurrent"
    and "head previousParts = Some headPrevious"
  shows "(let movements = fst (detect timestamp currentParts st);
              dx = pos_x headCurrent - pos_x headPrevious;
              dy = pos_y headCurrent - pos_y headPrevious
          in filter (\<lambda>e. e \<in> set HEAD_TURNS) movements =
               (if \<bar>dx\<bar> > 15
                then [if dx > 0 then ''Head turned left'' else ''Head turned right'']
                else [])
           \<and> filter (\<lambda>e. e \<in> set HEAD_TILTS) movements =
               (if \<bar>dy\<bar> > 15
                then [if dy > 0 then ''Head tilted down'' else ''Head tilted up'']
                else [])
           \<and> length (filter (\<lambda>e. e \<in> set (HEAD_TURNS @ HEAD_TILTS)) movements) \<le> 2
           \<and> (dx = 20 \<and> dy = 0 \<longrightarrow>
                filter (\<lambda>e. e \<in> set (HEAD_TURNS @ HEAD_TILTS)) movements = [''Head turned left'']))"
proof -
  let ?m = "detectMovements currentParts previousParts"
  have m: "fst (detect timestamp currentParts st) = ?m"
    using assms(1) by (rule fst_detect)
  have turn: "filter (\<lambda>e. e \<in> set HEAD_TURNS) ?m =
      (if \<bar>pos_x headCurrent - pos_x headPrevious\<bar> > 15
       then [if pos_x headCurrent - pos_x headPrevious > 0
             then ''Head turned left'' else ''Head turned right'']
       else [])"
    using head_turn_filter [OF assms(2,3)] by (simp add: filter_rest_turn)
  have tilt: "filter (\<lambda>e. e \<in> set HEAD_TILTS) ?m =
      (if \<bar>pos_y headCurrent - pos_y headPrevious\<bar> > 15
       then [if pos_y headCurrent - pos_y headPrevious > 0
             then ''Head tilted down'' else ''Head tilted up'']
       else [])"
    using head_tilt_filter [OF assms(2,3)] by (simp add: filter_rest_tilt)
  have both: "filter (\<lambda>e. e \<in> set (HEAD_TURNS @ HEAD_TILTS)) ?m =
      headMovements currentParts previousParts []"
    by (rule filter_rest_head)
  have len: "length (filter (\<lambda>e. e \<in> set (HEAD_TURNS @ HEAD_TILTS)) ?m) \<le> 2"
    unfolding both by (rule length_headMovements)
  have ex: "filter (\<lambda>e. e \<in> set (HEAD_TURNS @ HEAD_TILTS)) ?m = [''Head turned left'']"
    if "pos_x headCurrent - pos_x headPrevious = 20" "pos_y headCurrent - pos_y headPrevious = 0"
    unfolding both using that assms(2,3)
    by (simp add: headMovements_def Let_def MOVEMENT_THRESHOLD_def)
  show ?thesis
    unfolding Let_def m using turn tilt len ex by blast
qed

theorem head_events_witness:
  "filter (\<lambda>e. e \<in> set (HEAD_TURNS @ HEAD_TILTS))
     (fst (analyzeMovement ''12:00:00'' (Some (head_frame 120 100)) (with_previous (head_frame 100 100))))
     = [''Head turned left'']
   \<and> filter (\<lambda>e. e \<in> set HEAD_TILTS)
     (fst (analyzeMovement ''12:00:00'' (Some (head_frame 120 100)) (with_previous (head_frame 100 100))))
     = []"
proof -
  have cur: "head (computeParts (head_frame 120 100)) = Some \<lparr>pos_x = 120, pos_y = 100\<rparr>"
    and prev: "head (computeParts (head_frame 100 100)) = Some \<lparr>pos_x = 100, pos_y = 100\<rparr>"
    by (simp_all add: computeParts_head_frame)
  show ?thesis
    using head_events [OF previous_with_previous cur prev, of "''12:00:00''"]
    by (simp add: Let_def analyzeMovement_nonempty head_frame_nonempty)
qed

text \<open>
  C3. In a call of the movement detector with a previous snapshot, for each of leftArm,
  rightArm, leftLeg and rightLeg whose current and previous centres are both defined,
  the event of that part (\<open>left Arm movement\<close>, ...) is emitted exactly once if the
  Euclidean distance of the two centres, the square root of the sum of the squares of
  the two coordinate differences, is greater than 15, and not at all otherwise; for the
  torso the event \<open>Body movement\<close> is emitted exactly once if that distance is greater
  than 22.5, and not at all otherwise.
\<close>

theorem limb_and_torso_events:
  assumes "previousKeypointsRef st = Some previousParts"
  shows "(let movements = fst (detect timestamp currentParts st)
          in (\<forall>c p. leftArm currentParts = Some c \<and> leftArm previousParts = Some p \<longrightarrow>
                count_list movements ''left Arm movement'' =
                  (if sqrt ((pos_x c - pos_x p)\<^sup>2 + (pos_y c - pos_y p)\<^sup>2) > 15 then 1 else 0))
           \<and> (\<forall>c p. rightArm currentParts = Some c \<and> rightArm previousParts = Some p \<longrightarrow>
                count_list movements ''right Arm movement'' =
                  (if sqrt ((pos_x c - pos_x p)\<^sup>2 + (pos_y c - pos_y p)\<^sup>2) > 15 then 1 else 0))
           \<and> (\<forall>c p. leftLeg currentParts = Some c \<and> leftLeg previousParts = Some p \<longrightarrow>
                count_list movements ''left Leg movement'' =
                  (if sqrt ((pos_x c - pos_x p)\<^sup>2 + (pos_y c - pos_y p)\<^sup>2) > 15 then 1 else 0))
           \<and> (\<forall>c p. rightLeg currentParts = Some c \<and> rightLeg previousParts = Some p \<longrightarrow>
                count_list movements ''right Leg movement'' =
                  (if sqrt ((pos_x c - pos_x p)\<^sup>2 + (pos_y c - pos_y p)\<^sup>2) > 15 then 1 else 0))
           \<and> (\<forall>c p. torso currentParts = Some c \<and> torso previousParts = Some p \<longrightarrow>
                count_list movements ''Body movement'' =
                  (if sqrt ((pos_x c - pos_x p)\<^sup>2 + (pos_y c - pos_y p)\<^sup>2) > 22.5 then 1 else 0)))"
  unfolding Let_def fst_detect [OF assms]
  using count_leftArm [of currentParts _ previousParts, unfolded distance_def]
    count_rightArm [of currentParts _ previousParts, unfolded distance_def]
    count_leftLeg [of currentParts _ previousParts, unfolded distance_def]
    count_rightLeg [of currentParts _ previousParts, unfolded distance_def]
    count_torso [of currentParts _ previousParts, unfolded distance_def]
  by blast

theorem limb_and_torso_events_witness:
  "count_list (fst (analyzeMovement ''12:00:00'' (Some (torso_frame 20 0)) (with_previous (torso_frame 0 0))))
     ''Body movement'' = 0
   \<and> count_list (fst (analyzeMovement ''12:00:00'' (Some (torso_frame 20 0)) (with_previous (torso_frame 0 0))))
     ''left Arm movement'' = 1
   \<and> count_list (fst (analyzeMovement ''12:00:00'' (Some (torso_frame 23 0)) (with_previous (torso_frame 0 0))))
     ''Body movement'' = 1
   \<and> count_list (fst (analyzeMovement ''12:00:00'' (Some (torso_frame 9 12)) (with_previous (torso_frame 0 0))))
     ''left Arm movement'' = 0
   \<and> count_list (fst (analyzeMovement ''12:00:00'' (Some (torso_frame 9 12)) (with_previous (torso_frame 0 0))))
     ''right Leg movement'' = 0
   \<and> count_list (fst (analyzeMovement ''12:00:00'' (Some (torso_frame 12 16)) (with_previous (torso_frame 0 0))))
     ''right Arm movement'' = 1
   \<and> count_list (fst (analyzeMovement ''12:00:00'' (Some (torso_frame 12 16)) (with_previous (torso_frame 0 0))))
     ''left Leg movement'' = 1
   \<and> count_list (fst (analyzeMovement ''12:00:00'' (Some (torso_frame 12 16)) (with_previous (torso_frame 0 0))))
     ''Body movement'' = 0
   \<and> count_list (fst (analyzeMovement ''12:00:00'' (Some (torso_frame 15 20)) (with_previous (torso_frame 0 0))))
     ''Body movement'' = 1
   \<and> count_list (fst (analyzeMovement ''12:00:00'' (Some (torso_frame 0 (- 16))) (with_previous (torso_frame 0 0))))
     ''right Leg movement'' = 1"
  using limb_and_torso_events [OF previous_with_previous [of "torso_frame 0 0"],
        where timestamp = "''12:00:00''" and currentParts = "computeParts (torso_frame 20 0)"]
    limb_and_torso_events [OF previous_with_previous [of "torso_frame 0 0"],
        where timestamp = "''12:00:00''" and currentParts = "computeParts (torso_frame 23 0)"]
    limb_and_torso_events [OF previous_with_previous [of "torso_frame 0 0"],
        where timestamp = "''12:00:00''" and currentParts = "computeParts (torso_frame 9 12)"]
    limb_and_torso_events [OF previous_with_previous [of "torso_frame 0 0"],
        where timestamp = "''12:00:00''" and currentParts = "computeParts (torso_frame 12 16)"]
    limb_and_torso_events [OF previous_with_previous [of "torso_frame 0 0"],
        where timestamp = "''12:00:00''" and currentParts = "computeParts (torso_frame 15 20)"]
    limb_and_torso_events [OF previous_with_previous [of "torso_frame 0 0"],
        where timestamp = "''12:00:00''" and currentParts = "computeParts (torso_frame 0 (- 16))"]
  by (simp add: Let_def analyzeMovement_nonempty torso_frame_nonempty computeParts_torso_frame
      sqrt_gt_iff power2_eq_square)

text \<open>
  C4. The first call of the movement detector (no previous snapshot) emits no event,
  whatever \<open>currentParts\<close> holds, and records \<open>currentParts\<close> as the previous snapshot;
  and after every call that reaches the detector the previous snapshot is
  \<open>currentParts\<close>, events or not. For \<open>analyzeMovement\<close> this is every call with a
  non-empty keypoint sequence.
\<close>

theorem detect_baseline:
  "(previousKeypointsRef st = None \<longrightarrow>
      detect timestamp currentParts st = ([], st\<lparr>previousKeypointsRef := Some currentParts\<rparr>))
   \<and> previousKeypointsRef (snd (detect timestamp currentParts st)) = Some currentParts
   \<and> (smoothedKeypoints \<noteq> [] \<longrightarrow>
        analyzeMovement timestamp (Some smoothedKeypoints) initial =
          ([], initial\<lparr>previousKeypointsRef := Some (computeParts smoothedKeypoints)\<rparr>)
      \<and> previousKeypointsRef (snd (analyzeMovement timestamp (Some smoothedKeypoints) st)) =
          Some (computeParts smoothedKeypoints))"
  by (simp add: detect_def analyzeMovement_def initial_def Let_def split: option.splits)

theorem detect_baseline_witness:
  "analyzeMovement ''12:00:00'' (Some (head_frame 100 100)) initial =
     ([], with_previous (head_frame 100 100))
   \<and> previousKeypointsRef
       (snd (analyzeMovement ''12:00:05'' (Some (head_frame 101 100)) (with_previous (head_frame 100 100))))
     = Some (computeParts (head_frame 101 100))"
  using detect_baseline [where smoothedKeypoints = "head_frame 100 100" and timestamp = "''12:00:00''"
      and st = initial and currentParts = "computeParts (head_frame 100 100)"]
    detect_baseline [where smoothedKeypoints = "head_frame 101 100" and timestamp = "''12:00:05''"
      and st = "with_previous (head_frame 100 100)" and currentParts = "computeParts (head_frame 101 100)"]
  by (simp add: head_frame_nonempty with_previous_def)

text \<open>
  C10. Called with a missing or an empty keypoint sequence, \<open>analyzeMovement\<close> emits no
  event and returns the state as it was: the previous snapshot is neither set nor
  replaced.
\<close>

theorem analyzeMovement_empty_input:
  "analyzeMovement timestamp None st = ([], st)
   \<and> analyzeMovement timestamp (Some []) st = ([], st)
   \<and> previousKeypointsRef (snd (analyzeMovement timestamp None st)) = previousKeypointsRef st
   \<and> previousKeypointsRef (snd (analyzeMovement timestamp (Some []) st)) = previousKeypointsRef st"
  by (simp add: analyzeMovement_def)

theorem analyzeMovement_empty_input_witness:
  "analyzeMovement ''12:00:00'' (Some []) (with_previous (head_frame 100 100)) =
     ([], with_previous (head_frame 100 100))
   \<and> previousKeypointsRef
       (snd (analyzeMovement ''12:00:00'' None (with_previous (head_frame 100 100)))) =
     Some (computeParts (head_frame 100 100))"
  using analyzeMovement_empty_input [of "''12:00:00''" "with_previous (head_frame 100 100)"]
  by (simp add: previous_with_previous)

subsection \<open>The motion log\<close>

lemma take_append_take: "take n (xs @ take n ys) = take n (xs @ ys)"
  by (simp add: min_def)

lemma record_all_eq:
  "length l \<le> 10 \<Longrightarrow> record_all batches l = take 10 (concat (rev (map entries batches)) @ l)"
proof (induction batches arbitrary: l)
  case Nil
  then show ?case by (simp add: record_all_def)
next
  case (Cons b bs)
  have "record_all (b # bs) l = record_all bs (take 10 (entries b @ l))"
    by (simp add: record_all_def record_movements_def entries_def)
  also have "\<dots> = take 10 (concat (rev (map entries bs)) @ take 10 (entries b @ l))"
    by (rule Cons.IH) simp
  also have "\<dots> = take 10 (concat (rev (map entries bs)) @ entries b @ l)"
    by (rule take_append_take)
  finally show ?case by simp
qed

lemma length_concat_rev: "length (concat (rev xss)) = length (concat xss)"
  by (induction xss) simp_all

lemma length_entries: "length (concat (map entries batches)) = length (concat (map snd batches))"
  by (induction batches) (simp_all add: entries_def)

lemma concat_singletons:
  "concat (rev (map entries (map (\<lambda>e. (fst e, [snd e])) events))) =
     rev (map (\<lambda>e. \<lparr>entry_text = snd e, entry_time = fst e\<rparr>) events)"
  by (induction events) (simp_all add: entries_def)

text \<open>
  C7. A record operation puts the entries of the new batch, in the detector's order,
  in front of the log and keeps the first 10 entries. So after any sequence of record
  operations on the empty log, the log is the first 10 entries of the batches laid out
  newest batch first; it has \<open>min 10 n\<close> entries for \<open>n\<close> recorded events (10 after 12
  events); and after events recorded one by one it holds the last 10 of them, newest
  first. \<open>analyzeMovement\<close> records exactly when the detector emitted an event, and keeps
  the log within 10 entries.
\<close>

theorem motionLog_window:
  "record_movements timestamp movements prev = take 10 (entries (timestamp, movements) @ prev)
   \<and> record_all batches [] = take 10 (concat (rev (map entries batches)))
   \<and> length (record_all batches []) = min 10 (length (concat (map snd batches)))
   \<and> record_all (map (\<lambda>e. (fst e, [snd e])) events) [] =
       rev (last_n 10 (map (\<lambda>e. \<lparr>entry_text = snd e, entry_time = fst e\<rparr>) events))
   \<and> motionLog (snd (detect timestamp currentParts st)) =
       (case previousKeypointsRef st of
          None \<Rightarrow> motionLog st
        | Some previousParts \<Rightarrow>
            if detectMovements currentParts previousParts = [] then motionLog st
            else record_movements timestamp (detectMovements currentParts previousParts) (motionLog st))
   \<and> (length (motionLog st) \<le> 10 \<longrightarrow> length (motionLog (snd (detect timestamp currentParts st))) \<le> 10)"
proof -
  have a: "record_movements timestamp movements prev = take 10 (entries (timestamp, movements) @ prev)"
    by (simp add: record_movements_def entries_def)
  have b: "record_all bs [] = take 10 (concat (rev (map entries bs)))" for bs
    using record_all_eq [of "[]" bs] by simp
  have c: "length (record_all batches []) = min 10 (length (concat (map snd batches)))"
    by (simp add: b length_concat_rev rev_map [symmetric] length_entries min.commute)
  have d: "record_all (map (\<lambda>e. (fst e, [snd e])) events) [] =
       rev (last_n 10 (map (\<lambda>e. \<lparr>entry_text = snd e, entry_time = fst e\<rparr>) events))"
    by (simp add: b concat_singletons last_n_def take_rev del: map_map)
  have e: "motionLog (snd (detect timestamp currentParts st)) =
       (case previousKeypointsRef st of
          None \<Rightarrow> motionLog st
        | Some previousParts \<Rightarrow>
            if detectMovements currentParts previousParts = [] then motionLog st
            else record_movements timestamp (detectMovements currentParts previousParts) (motionLog st))"
    by (simp add: detect_def Let_def split: option.splits)
  have f: "length (motionLog (snd (detect timestamp currentParts st))) \<le> 10"
    if "length (motionLog st) \<le> 10"
    using that by (simp add: e record_movements_def del: take_append split: option.splits)
  from a b c d e f show ?thesis by blast
qed

theorem motionLog_window_witness:
  "record_all (map (\<lambda>c. (''12:00:00'', [[c]])) ''abcdefghijkl'') [] =
     map (\<lambda>c. \<lparr>entry_text = [c], entry_time = ''12:00:00''\<rparr>) ''lkjihgfedc''
   \<and> length (record_all [(''12:00:00'', [''Head turned left'', ''Head tilted up'', ''left Arm movement'',
          ''right Arm movement'', ''left Leg movement'', ''right Leg movement'', ''Body movement'']),
        (''12:00:05'', [''Head turned right'', ''Head tilted down'', ''left Arm movement'',
          ''right Arm movement'', ''Body movement''])] []) = 10"
  using motionLog_window [where events = "map (\<lambda>c. (''12:00:00'', [c])) ''abcdefghijkl''"
      and timestamp = "''12:00:00''" and movements = "[]" and prev = "[]"
      and currentParts = "computeParts (head_frame 100 100)" and st = initial
      and batches = "[(''12:00:00'', [''Head turned left'', ''Head tilted up'', ''left Arm movement'',
          ''right Arm movement'', ''left Leg movement'', ''right Leg movement'', ''Body movement'']),
        (''12:00:05'', [''Head turned right'', ''Head tilted down'', ''left Arm movement'',
          ''right Arm movement'', ''Body movement''])]"]
  by (simp add: last_n_def entries_def)

subsection \<open>The detection loop\<close>

lemma frame_applyTemporalSmoothing:
  "frameCountRef (snd (applyTemporalSmoothing keypoints st)) = frameCountRef st"
  "canvas (snd (applyTemporalSmoothing keypoints st)) = canvas st"
  "previousKeypointsRef (snd (applyTemporalSmoothing keypoints st)) = previousKeypointsRef st"
  "motionLog (snd (applyTemporalSmoothing keypoints st)) = motionLog st"
  by (simp_all add: applyTemporalSmoothing_def Let_def)

lemma length_applyTemporalSmoothing:
  "length (fst (applyTemporalSmoothing keypoints st)) = length keypoints"
  by (simp add: applyTemporalSmoothing_def Let_def)

lemma frame_detect:
  "frameCountRef (snd (detect timestamp currentParts st)) = frameCountRef st"
  "canvas (snd (detect timestamp currentParts st)) = canvas st"
  "keypointHistoryRef (snd (detect timestamp currentParts st)) = keypointHistoryRef st"
  by (simp_all add: detect_def Let_def split: option.splits)

lemma frame_analyzeMovement:
  "frameCountRef (snd (analyzeMovement timestamp smoothedKeypoints st)) = frameCountRef st"
  "canvas (snd (analyzeMovement timestamp smoothedKeypoints st)) = canvas st"
  "keypointHistoryRef (snd (analyzeMovement timestamp smoothedKeypoints st)) = keypointHistoryRef st"
  by (simp_all add: analyzeMovement_def frame_detect split: option.splits)

lemma previous_analyzeMovement:
  "smoothedKeypoints \<noteq> [] \<Longrightarrow>
     previousKeypointsRef (snd (analyzeMovement timestamp (Some smoothedKeypoints) st)) =
       Some (computeParts smoothedKeypoints)"
  by (simp add: analyzeMovement_def detect_def Let_def split: option.splits)

lemma detectPose_Some:
  "detectPose timestamp (Some keypoints) st =
     (let smoothedKeypoints = fst (applyTemporalSmoothing keypoints st);
          st3 = (snd (applyTemporalSmoothing keypoints st))
                  \<lparr>canvas := canvas st @ [smoothedKeypoints], frameCountRef := frameCountRef st + 1\<rparr>
      in if (frameCountRef st + 1) mod FRAME_SKIP = 0
         then snd (analyzeMovement timestamp (Some smoothedKeypoints) st3)
         else st3)"
  by (simp add: detectPose_def Let_def case_prod_beta frame_applyTemporalSmoothing)

lemma detectPose_count:
  "frameCountRef (detectPose timestamp pose st) =
     frameCountRef st + (if pose = None then 0 else 1)"
  by (cases pose) (simp_all add: detectPose_Some Let_def frame_analyzeMovement, simp add: detectPose_def)

lemma detectPose_canvas:
  "length (canvas (detectPose timestamp pose st)) =
     length (canvas st) + (if pose = None then 0 else 1)"
  by (cases pose) (simp_all add: detectPose_Some Let_def frame_analyzeMovement, simp add: detectPose_def)

lemma run_count:
  "frameCountRef (run inputs st) = frameCountRef st + length (successful inputs) \<and>
   length (canvas (run inputs st)) = length (canvas st) + length (successful inputs)"
proof (induction inputs st rule: run.induct)
  case (1 st)
  show ?case by (simp add: successful_def)
next
  case (2 timestamp pose rest st)
  then show ?case
    by (simp add: successful_def detectPose_count detectPose_canvas)
qed

text \<open>
  C8. A round of the detection loop with no pose changes nothing. A round with a pose
  increments the frame counter by one and draws the smoothed frame, whatever the
  counter; when the incremented counter is not a multiple of 5 the previous snapshot
  and the motion log are untouched, and when it is a multiple of 5 the round ends with
  \<open>analyzeMovement\<close> on the smoothed frame (which, for a non-empty frame, leaves the
  parts of that frame as the previous snapshot). Over a run, the counter and the number
  of drawn frames both grow by the number of successful estimations.
\<close>

theorem detectPose_frame_skip:
  "detectPose timestamp None st = st
   \<and> (let smoothedKeypoints = fst (applyTemporalSmoothing keypoints st);
           st' = detectPose timestamp (Some keypoints) st
       in frameCountRef st' = frameCountRef st + 1
        \<and> canvas st' = canvas st @ [smoothedKeypoints]
        \<and> keypointHistoryRef st' = keypointHistoryRef (snd (applyTemporalSmoothing keypoints st))
        \<and> ((frameCountRef st + 1) mod 5 \<noteq> 0 \<longrightarrow>
              previousKeypointsRef st' = previousKeypointsRef st \<and> motionLog st' = motionLog st)
        \<and> ((frameCountRef st + 1) mod 5 = 0 \<longrightarrow>
              snd (analyzeMovement timestamp (Some smoothedKeypoints)
                     ((snd (applyTemporalSmoothing keypoints st))
                        \<lparr>canvas := canvas st @ [smoothedKeypoints],
                         frameCountRef := frameCountRef st + 1\<rparr>)) = st')
        \<and> ((frameCountRef st + 1) mod 5 = 0 \<and> keypoints \<noteq> [] \<longrightarrow>
              previousKeypointsRef st' = Some (computeParts smoothedKeypoints)))
   \<and> frameCountRef (run inputs st) = frameCountRef st + length (successful inputs)
   \<and> length (canvas (run inputs st)) = length (canvas st) + length (successful inputs)"
proof -
  let ?sm = "fst (applyTemporalSmoothing keypoints st)"
  let ?st' = "detectPose timestamp (Some keypoints) st"
  have none: "detectPose timestamp None st = st"
    by (simp add: detectPose_def)
  have cnt: "frameCountRef ?st' = frameCountRef st + 1"
    by (simp add: detectPose_count)
  have cv: "canvas ?st' = canvas st @ [?sm]"
    by (simp add: detectPose_Some Let_def frame_analyzeMovement)
  have hist: "keypointHistoryRef ?st' = keypointHistoryRef (snd (applyTemporalSmoothing keypoints st))"
    by (simp add: detectPose_Some Let_def frame_analyzeMovement)
  have skip: "previousKeypointsRef ?st' = previousKeypointsRef st \<and> motionLog ?st' = motionLog st"
    if "(frameCountRef st + 1) mod 5 \<noteq> 0"
    using that by (simp add: detectPose_Some Let_def FRAME_SKIP_def frame_applyTemporalSmoothing)
  have run5: "snd (analyzeMovement timestamp (Some ?sm)
                     ((snd (applyTemporalSmoothing keypoints st))
                        \<lparr>canvas := canvas st @ [?sm], frameCountRef := frameCountRef st + 1\<rparr>)) = ?st'"
    if "(frameCountRef st + 1) mod 5 = 0"
    using that by (simp add: detectPose_Some Let_def FRAME_SKIP_def)
  have prev: "previousKeypointsRef ?st' = Some (computeParts ?sm)"
    if "(frameCountRef st + 1) mod 5 = 0" "keypoints \<noteq> []"
  proof -
    from that(2) have "?sm \<noteq> []"
      using length_applyTemporalSmoothing [of keypoints st] by auto
    then show ?thesis
      by (simp add: run5 [OF that(1), symmetric] previous_analyzeMovement)
  qed
  show ?thesis
    unfolding Let_def using none cnt cv hist skip run5 prev run_count [of inputs st]
    by (intro conjI impI) simp_all
qed

theorem detectPose_frame_skip_witness:
  "frameCountRef (detectPose ''12:00:00'' (Some (head_frame 100 100)) (initial\<lparr>frameCountRef := 4\<rparr>)) = 5
   \<and> canvas (detectPose ''12:00:00'' (Some (head_frame 100 100)) (initial\<lparr>frameCountRef := 4\<rparr>))
       = [head_frame 100 100]
   \<and> previousKeypointsRef (detectPose ''12:00:00'' (Some (head_frame 100 100)) (initial\<lparr>frameCountRef := 4\<rparr>))
       = Some (computeParts (head_frame 100 100))
   \<and> previousKeypointsRef (detectPose ''12:00:00'' (Some (head_frame 100 100)) initial) = None
   \<and> canvas (detectPose ''12:00:00'' (Some (head_frame 100 100)) initial) = [head_frame 100 100]
   \<and> frameCountRef (detectPose ''12:00:00'' (Some (head_frame 100 100)) initial) = 1"
proof -
  have sm: "fst (applyTemporalSmoothing (head_frame 100 100) (initial\<lparr>frameCountRef := n\<rparr>)) =
      head_frame 100 100" for n
    by (simp add: applyTemporalSmoothing_def Let_def initial_def SMOOTHING_WINDOW_def)
  have sm0: "fst (applyTemporalSmoothing (head_frame 100 100) initial) = head_frame 100 100"
    by (simp add: applyTemporalSmoothing_def Let_def initial_def SMOOTHING_WINDOW_def)
  show ?thesis
    using detectPose_frame_skip [where keypoints = "head_frame 100 100" and timestamp = "''12:00:00''"
        and st = "initial\<lparr>frameCountRef := 4\<rparr>" and inputs = "[]"]
      detectPose_frame_skip [where keypoints = "head_frame 100 100" and timestamp = "''12:00:00''"
        and st = initial and inputs = "[]"]
    by (simp add: Let_def sm sm0 head_frame_nonempty) (simp add: initial_def)
qed

end
